theory Spec2Isabelle
  imports Complex_Main
begin

section \<open>Data model (types.ts)\<close>

text \<open>
  A JavaScript \<open>number\<close> is modelled as a real: the handlers only copy coordinates,
  multiply an index by 1.5 and ask three.js for a distance.
  A tuple \<open>[number, number, number]\<close> is a triple.
\<close>

type_synonym vec3 = "real \<times> real \<times> real"

datatype ObjectType = Primitive | Uploaded

datatype GeometryType = Box | Sphere | Cylinder

datatype ToolMode = SELECT | MOVE | ROTATE | SCALE | MEASURE

text \<open>\<open>interface SceneObject\<close>; the two optional fields are options.\<close>

record SceneObject =
  obj_id :: string
  obj_name :: string
  obj_type :: ObjectType
  obj_geometryType :: "GeometryType option"
  obj_fileUrl :: "string option"
  obj_position :: vec3
  obj_rotation :: vec3
  obj_scale :: vec3
  obj_color :: string

text \<open>
  \<open>Partial<SceneObject>\<close>: every key may be absent (\<open>None\<close>). A key of an optional
  field may also be present with the value \<open>undefined\<close> (\<open>Some None\<close>).
\<close>

record PartialSceneObject =
  p_id :: "string option"
  p_name :: "string option"
  p_type :: "ObjectType option"
  p_geometryType :: "GeometryType option option"
  p_fileUrl :: "string option option"
  p_position :: "vec3 option"
  p_rotation :: "vec3 option"
  p_scale :: "vec3 option"
  p_color :: "string option"

definition emptyPartial :: PartialSceneObject where
  "emptyPartial =
     \<lparr>p_id = None, p_name = None, p_type = None, p_geometryType = None, p_fileUrl = None,
      p_position = None, p_rotation = None, p_scale = None, p_color = None\<rparr>"

record Measurement =
  m_id :: string
  startPoint :: vec3
  endPoint :: vec3
  distance :: real

record DropboxFile =
  df_id :: string
  df_name :: string
  df_geometryType :: "GeometryType option"
  df_size :: "string option"

record WatermarkConfig =
  wm_text :: string
  wm_enabled :: bool
  wm_opacity :: real

section \<open>Session state\<close>

text \<open>
  One record holds the \<open>useState\<close> slots of the three components and, as lists, the
  effects the handlers have on the outside world.
  \<^item> \<open>App\<close>: \<open>objects\<close>, \<open>selectedId\<close>, \<open>mode\<close>, \<open>background\<close>, \<open>measurements\<close>,
    \<open>watermark\<close>, \<open>isRendering\<close>, \<open>renderResult\<close>, and \<open>canvasRef\<close> (whether
    \<open>canvasRef.current\<close> is set).
  \<^item> \<open>Viewer3D\<close>: \<open>measuringStart\<close>.
  \<^item> \<open>AssetBrowser\<close>: \<open>selectedParts\<close>, a JavaScript \<open>Set\<close>, kept as the list of its
    members in insertion order, which is the order \<open>forEach\<close> visits them in.
  \<^item> outside world: \<open>alerts\<close> (calls of \<open>alert\<close>), \<open>errorLog\<close> (calls of
    \<open>console.error\<close>), \<open>objectUrls\<close> (files handed to \<open>URL.createObjectURL\<close>),
    \<open>inFlight\<close> (requests sent to the render service and not yet settled: snapshot,
    prompt, watermark text).
\<close>

record AppState =
  objects :: "SceneObject list"
  selectedId :: "string option"
  mode :: ToolMode
  background :: string
  measurements :: "Measurement list"
  watermark :: WatermarkConfig
  isRendering :: bool
  renderResult :: "string option"
  canvasRef :: bool
  measuringStart :: "vec3 option"
  selectedParts :: "string list"
  alerts :: "string list"
  errorLog :: "string list"
  objectUrls :: "string list"
  inFlight :: "(string \<times> string \<times> string) list"

text \<open>The state \<open>App\<close>, \<open>Viewer3D\<close> and \<open>AssetBrowser\<close> mount with.\<close>

definition initialState :: AppState where
  "initialState =
     \<lparr>objects = [], selectedId = None, mode = SELECT, background = ''#1a1a1d'',
      measurements = [],
      watermark = \<lparr>wm_text = ''DRAFT'', wm_enabled = True, wm_opacity = 1 / 2\<rparr>,
      isRendering = False, renderResult = None, canvasRef = False,
      measuringStart = None, selectedParts = [],
      alerts = [], errorLog = [], objectUrls = [], inFlight = []\<rparr>"

section \<open>Scene object store (App)\<close>

text \<open>
  \<open>a || b\<close>: \<open>b\<close> when \<open>a\<close> is falsy. A string is falsy when it is undefined or
  empty; a tuple and a member of a union of non-empty literals are falsy only when
  undefined.
\<close>

definition orString :: "string option \<Rightarrow> string \<Rightarrow> string" where
  "orString a b = (case a of None \<Rightarrow> b | Some s \<Rightarrow> if s = [] then b else s)"

definition orValue :: "'a option \<Rightarrow> 'a \<Rightarrow> 'a" where
  "orValue a b = (case a of None \<Rightarrow> b | Some v \<Rightarrow> v)"

text \<open>\<open>(n).toString()\<close> of a non-negative integer: its decimal digits.\<close>

definition digitChar :: "nat \<Rightarrow> char" where
  "digitChar d = char_of (48 + d)"

fun toString :: "nat \<Rightarrow> string" where
  "toString n = (if n < 10 then [digitChar n] else toString (n div 10) @ [digitChar (n mod 10)])"

text \<open>\<open>s.substr(start, len)\<close> for non-negative arguments.\<close>

definition substr :: "string \<Rightarrow> nat \<Rightarrow> nat \<Rightarrow> string" where
  "substr s start len = take len (drop start s)"

text \<open>
  \<open>`${Date.now()}-${Math.random().toString(36).substr(2, 9)}`\<close>. The clock reading
  \<open>now\<close> and the base-36 text \<open>rnd\<close> of the random number are what the environment
  hands to the call.
\<close>

definition uniqueId :: "nat \<Rightarrow> string \<Rightarrow> string" where
  "uniqueId now rnd = toString now @ ''-'' @ substr rnd 2 9"

definition newObj :: "nat \<Rightarrow> string \<Rightarrow> PartialSceneObject \<Rightarrow> SceneObject" where
  "newObj now rnd objData =
     \<lparr>obj_id = uniqueId now rnd,
      obj_name = orString (p_name objData) ''New Object'',
      obj_type = orValue (p_type objData) Primitive,
      obj_geometryType = (case p_geometryType objData of None \<Rightarrow> None | Some g \<Rightarrow> g),
      obj_fileUrl = (case p_fileUrl objData of None \<Rightarrow> None | Some u \<Rightarrow> u),
      obj_position = orValue (p_position objData) (0, 0, 0),
      obj_rotation = orValue (p_rotation objData) (0, 0, 0),
      obj_scale = orValue (p_scale objData) (1, 1, 1),
      obj_color = orString (p_color objData) ''#ffffff''\<rparr>"

definition handleAddObject :: "nat \<Rightarrow> string \<Rightarrow> PartialSceneObject \<Rightarrow> AppState \<Rightarrow> AppState" where
  "handleAddObject now rnd objData s =
     s\<lparr>objects := objects s @ [newObj now rnd objData],
       selectedId := Some (obj_id (newObj now rnd objData)),
       mode := MOVE\<rparr>"

text \<open>
  \<open>{ ...o, ...updates }\<close>: every key present in \<open>updates\<close> overwrites the field,
  whatever its value.
\<close>

definition overwrite :: "'a option \<Rightarrow> 'a \<Rightarrow> 'a" where
  "overwrite u v = (case u of None \<Rightarrow> v | Some w \<Rightarrow> w)"

definition spread :: "SceneObject \<Rightarrow> PartialSceneObject \<Rightarrow> SceneObject" where
  "spread ob updates =
     \<lparr>obj_id = overwrite (p_id updates) (obj_id ob),
      obj_name = overwrite (p_name updates) (obj_name ob),
      obj_type = overwrite (p_type updates) (obj_type ob),
      obj_geometryType = overwrite (p_geometryType updates) (obj_geometryType ob),
      obj_fileUrl = overwrite (p_fileUrl updates) (obj_fileUrl ob),
      obj_position = overwrite (p_position updates) (obj_position ob),
      obj_rotation = overwrite (p_rotation updates) (obj_rotation ob),
      obj_scale = overwrite (p_scale updates) (obj_scale ob),
      obj_color = overwrite (p_color updates) (obj_color ob)\<rparr>"

definition handleUpdateObject :: "string \<Rightarrow> PartialSceneObject \<Rightarrow> AppState \<Rightarrow> AppState" where
  "handleUpdateObject i updates s =
     s\<lparr>objects := map (\<lambda>ob. if obj_id ob = i then spread ob updates else ob) (objects s)\<rparr>"

text \<open>A list of \<open>addObject\<close> calls, each with the clock and random text it draws.\<close>

fun addObjects :: "(nat \<times> string \<times> PartialSceneObject) list \<Rightarrow> AppState \<Rightarrow> AppState" where
  "addObjects [] s = s"
| "addObjects ((now, rnd, objData) # calls) s = addObjects calls (handleAddObject now rnd objData s)"

text \<open>
  The object literal \<open>{field: v}\<close> with a single key, for each field of a scene object.
\<close>

datatype FieldUpdate =
  SetId string | SetName string | SetType ObjectType
  | SetGeometryType "GeometryType option" | SetFileUrl "string option"
  | SetPosition vec3 | SetRotation vec3 | SetScale vec3 | SetColor string

fun singleField :: "FieldUpdate \<Rightarrow> PartialSceneObject" where
  "singleField (SetId v) = emptyPartial\<lparr>p_id := Some v\<rparr>"
| "singleField (SetName v) = emptyPartial\<lparr>p_name := Some v\<rparr>"
| "singleField (SetType v) = emptyPartial\<lparr>p_type := Some v\<rparr>"
| "singleField (SetGeometryType v) = emptyPartial\<lparr>p_geometryType := Some v\<rparr>"
| "singleField (SetFileUrl v) = emptyPartial\<lparr>p_fileUrl := Some v\<rparr>"
| "singleField (SetPosition v) = emptyPartial\<lparr>p_position := Some v\<rparr>"
| "singleField (SetRotation v) = emptyPartial\<lparr>p_rotation := Some v\<rparr>"
| "singleField (SetScale v) = emptyPartial\<lparr>p_scale := Some v\<rparr>"
| "singleField (SetColor v) = emptyPartial\<lparr>p_color := Some v\<rparr>"

text \<open>
  The specification's reading of such an update: that one field of the entry is set to
  \<open>v\<close> and nothing else about the entry changes.
\<close>

fun changeOnly :: "FieldUpdate \<Rightarrow> SceneObject \<Rightarrow> SceneObject" where
  "changeOnly (SetId v) ob = ob\<lparr>obj_id := v\<rparr>"
| "changeOnly (SetName v) ob = ob\<lparr>obj_name := v\<rparr>"
| "changeOnly (SetType v) ob = ob\<lparr>obj_type := v\<rparr>"
| "changeOnly (SetGeometryType v) ob = ob\<lparr>obj_geometryType := v\<rparr>"
| "changeOnly (SetFileUrl v) ob = ob\<lparr>obj_fileUrl := v\<rparr>"
| "changeOnly (SetPosition v) ob = ob\<lparr>obj_position := v\<rparr>"
| "changeOnly (SetRotation v) ob = ob\<lparr>obj_rotation := v\<rparr>"
| "changeOnly (SetScale v) ob = ob\<lparr>obj_scale := v\<rparr>"
| "changeOnly (SetColor v) ob = ob\<lparr>obj_color := v\<rparr>"

section \<open>Viewport (Viewer3D)\<close>

text \<open>
  \<open>THREE.Vector3.distanceToSquared\<close> and \<open>distanceTo\<close> of three.js, over the reals:
  \<open>dx = this.x - v.x\<close>, and so on; \<open>dx * dx + dy * dy + dz * dz\<close>; its square root.
\<close>

fun distanceToSquared :: "vec3 \<Rightarrow> vec3 \<Rightarrow> real" where
  "distanceToSquared (x, y, z) (vx, vy, vz) =
     (x - vx) * (x - vx) + (y - vy) * (y - vy) + (z - vz) * (z - vz)"

definition distanceTo :: "vec3 \<Rightarrow> vec3 \<Rightarrow> real" where
  "distanceTo a v = sqrt (distanceToSquared a v)"

text \<open>The props \<open>onSelect = setSelectedId\<close> and \<open>onAddMeasurement\<close> that \<open>App\<close> passes.\<close>

definition onSelect :: "string option \<Rightarrow> AppState \<Rightarrow> AppState" where
  "onSelect i s = s\<lparr>selectedId := i\<rparr>"

definition onAddMeasurement :: "Measurement \<Rightarrow> AppState \<Rightarrow> AppState" where
  "onAddMeasurement m s = s\<lparr>measurements := measurements s @ [m]\<rparr>"

text \<open>
  \<open>handleCanvasClick(e)\<close>, with \<open>p = e.point\<close> and \<open>now\<close> the reading of \<open>Date.now()\<close>.
  (\<open>e.stopPropagation()\<close> is accounted for where the event is dispatched.)
\<close>

definition handleCanvasClick :: "nat \<Rightarrow> vec3 \<Rightarrow> AppState \<Rightarrow> AppState" where
  "handleCanvasClick now p s =
     (if mode s = MEASURE then
        (case measuringStart s of
           None \<Rightarrow> s\<lparr>measuringStart := Some p\<rparr>
         | Some start \<Rightarrow>
             (onAddMeasurement
                \<lparr>m_id = toString now, startPoint = start, endPoint = p,
                 distance = distanceTo start p\<rparr> s)
             \<lparr>measuringStart := None\<rparr>)
      else if mode s = SELECT then onSelect None s
      else s)"

text \<open>
  The nodes of the scene graph that carry an \<open>onClick\<close> prop: the mesh of the
  \<open>SceneItem\<close> rendered for \<open>objects[i]\<close>, the \<open>visible={false}\<close> mesh inside
  \<open>Stage\<close>, and the \<open>group\<close> after it.
\<close>

datatype SceneNode = SceneItemMesh nat | InvisibleMesh | EmptyGroup

text \<open>
  What a pointer ray can intersect. A \<open>SceneItem\<close> mesh has a box, sphere or cylinder
  geometry child and exists for every index of \<open>objects\<close>. The invisible mesh has no
  geometry child (its body is a comment), so three.js gives it an empty
  \<open>BufferGeometry\<close> and its \<open>raycast\<close> reports nothing; the group has no children
  and a group itself has nothing to intersect.
\<close>

fun intersectable :: "AppState \<Rightarrow> SceneNode \<Rightarrow> bool" where
  "intersectable s (SceneItemMesh i) = (i < length (objects s))"
| "intersectable s InvisibleMesh = False"
| "intersectable s EmptyGroup = False"

text \<open>The \<open>onSelect\<close> prop \<open>Viewer3D\<close> gives the \<open>SceneItem\<close> of \<open>obj\<close>.\<close>

definition sceneItemOnSelect :: "SceneObject \<Rightarrow> AppState \<Rightarrow> AppState" where
  "sceneItemOnSelect ob s = (if mode s \<noteq> MEASURE then onSelect (Some (obj_id ob)) s else s)"

text \<open>
  The \<open>onClick\<close> of a node: the new state, and whether it called
  \<open>e.stopPropagation()\<close>.
\<close>

fun nodeOnClick :: "nat \<Rightarrow> vec3 \<Rightarrow> SceneNode \<Rightarrow> AppState \<Rightarrow> AppState \<times> bool" where
  "nodeOnClick now p (SceneItemMesh i) s = (sceneItemOnSelect (objects s ! i) s, True)"
| "nodeOnClick now p InvisibleMesh s =
     (if mode s = MEASURE then (handleCanvasClick now p s, True) else (s, False))"
| "nodeOnClick now p EmptyGroup s =
     (if mode s = MEASURE then (handleCanvasClick now p s, True) else (s, False))"

text \<open>The \<open>onClick\<close> prop of \<open>Canvas\<close>.\<close>

definition canvasOnClick :: "AppState \<Rightarrow> AppState" where
  "canvasOnClick s = (if mode s = SELECT then onSelect None s else s)"

text \<open>
  Delivery of one click to the intersections, nearest first, until a handler stops the
  propagation.
\<close>

fun deliver :: "nat \<Rightarrow> (SceneNode \<times> vec3) list \<Rightarrow> AppState \<Rightarrow> AppState \<times> bool" where
  "deliver now [] s = (s, False)"
| "deliver now ((n, p) # hits) s =
     (case nodeOnClick now p n s of
        (s', stopped) \<Rightarrow> if stopped then (s', True) else deliver now hits s')"

text \<open>
  One click in the viewport. \<open>ray\<close> lists the nodes under the pointer, nearest first,
  each with the point where the ray meets it; only the intersectable ones receive the
  event. The \<open>onClick\<close> prop of \<open>Canvas\<close> is passed on to the \<open>div\<close> that wraps the
  canvas, so it is a handler of the DOM click: \<open>e.stopPropagation()\<close> of the scene
  event ends the delivery among the scene nodes only, and the \<open>Canvas\<close> handler runs on
  every click, after them.
\<close>

definition viewerClick :: "nat \<Rightarrow> (SceneNode \<times> vec3) list \<Rightarrow> AppState \<Rightarrow> AppState" where
  "viewerClick now ray s =
     canvasOnClick (fst (deliver now (filter (\<lambda>(n, p). intersectable s n) ray) s))"

text \<open>A sequence of clicks, each with its clock reading.\<close>

fun viewerClicks :: "(nat \<times> (SceneNode \<times> vec3) list) list \<Rightarrow> AppState \<Rightarrow> AppState" where
  "viewerClicks [] s = s"
| "viewerClicks ((now, ray) # clicks) s = viewerClicks clicks (viewerClick now ray s)"

section \<open>Asset catalog (AssetBrowser)\<close>

definition part :: "string \<Rightarrow> string \<Rightarrow> GeometryType \<Rightarrow> string \<Rightarrow> DropboxFile" where
  "part i n g sz = \<lparr>df_id = i, df_name = n, df_geometryType = Some g, df_size = Some sz\<rparr>"

definition SYSTEM_PARTS :: "DropboxFile list" where
  "SYSTEM_PARTS =
     [part ''p1'' ''Aluminium Extrusion 40x40'' Box ''2.1MB'',
      part ''p2'' ''L-Bracket Joint'' Box ''0.4MB'',
      part ''p3'' ''Heavy Duty Caster'' Sphere ''1.2MB'',
      part ''p4'' ''Mounting Plate'' Box ''0.8MB'',
      part ''p5'' ''Hydraulic Piston'' Cylinder ''1.5MB'',
      part ''p6'' ''Control Panel Housing'' Box ''3.2MB'',
      part ''p7'' ''Safety Guard Panel'' Box ''1.1MB'',
      part ''p8'' ''M8 Fastener Kit'' Sphere ''0.1MB'']"

definition togglePart :: "string \<Rightarrow> AppState \<Rightarrow> AppState" where
  "togglePart i s =
     (if i \<in> set (selectedParts s) then s\<lparr>selectedParts := removeAll i (selectedParts s)\<rparr>
      else s\<lparr>selectedParts := selectedParts s @ [i]\<rparr>)"

text \<open>The object literal \<open>handleAssemble\<close> passes to \<open>onAddObject\<close>.\<close>

definition assembledPart :: "DropboxFile \<Rightarrow> nat \<Rightarrow> PartialSceneObject" where
  "assembledPart pt index =
     emptyPartial\<lparr>p_name := Some (df_name pt), p_type := Some Primitive,
       p_geometryType := Some (df_geometryType pt), p_color := Some ''#e0e0e0'',
       p_position := Some (real index * (3 / 2), 0, 0)\<rparr>"

text \<open>\<open>SYSTEM_PARTS.find(p => p.id === id)\<close>.\<close>

definition findPart :: "string \<Rightarrow> DropboxFile option" where
  "findPart i = find (\<lambda>p. df_id p = i) SYSTEM_PARTS"

text \<open>
  The body of \<open>selectedParts.forEach\<close> over the remaining ids, with the running
  \<open>index\<close>. \<open>env k\<close> is what the \<open>k\<close>-th \<open>onAddObject\<close> call of the batch draws
  from the clock and the random generator.
\<close>

fun assembleLoop :: "(nat \<Rightarrow> nat \<times> string) \<Rightarrow> string list \<Rightarrow> nat \<Rightarrow> AppState \<Rightarrow> AppState" where
  "assembleLoop env [] index s = s"
| "assembleLoop env (i # ids) index s =
     (case findPart i of
        None \<Rightarrow> assembleLoop env ids index s
      | Some pt \<Rightarrow>
          assembleLoop env ids (index + 1)
            (handleAddObject (fst (env index)) (snd (env index)) (assembledPart pt index) s))"

definition handleAssemble :: "(nat \<Rightarrow> nat \<times> string) \<Rightarrow> AppState \<Rightarrow> AppState" where
  "handleAssemble env s = (assembleLoop env (selectedParts s) 0 s)\<lparr>selectedParts := []\<rparr>"

text \<open>\<open>e.target.files?.[0]\<close>: the list may be null or empty. A file is known by its name.\<close>

fun firstFile :: "string list option \<Rightarrow> string option" where
  "firstFile None = None"
| "firstFile (Some []) = None"
| "firstFile (Some (f # fs)) = Some f"

text \<open>\<open>url\<close> is the locator \<open>URL.createObjectURL\<close> returns for the file.\<close>

definition handleUpload :: "nat \<Rightarrow> string \<Rightarrow> string \<Rightarrow> string list option \<Rightarrow> AppState \<Rightarrow> AppState" where
  "handleUpload now rnd url files s =
     (case firstFile files of
        None \<Rightarrow> s
      | Some file \<Rightarrow>
          handleAddObject now rnd
            (emptyPartial\<lparr>p_name := Some file, p_type := Some Uploaded,
               p_fileUrl := Some (Some url), p_color := Some ''#cccccc'',
               p_position := Some (0, 2, 0)\<rparr>)
            (s\<lparr>objectUrls := objectUrls s @ [url]\<rparr>))"

section \<open>Render bridge (App.handleGenerateRender, Toolbar)\<close>

text \<open>What a call that may throw, or a promise, ends with.\<close>

datatype 'a outcome = Fulfilled 'a | Rejected string

definition catchBlock :: "string \<Rightarrow> AppState \<Rightarrow> AppState" where
  "catchBlock e s =
     s\<lparr>alerts := alerts s @ [''Rendering failed. Please try again.''],
       errorLog := errorLog s @ [e]\<rparr>"

definition finallyBlock :: "AppState \<Rightarrow> AppState" where
  "finallyBlock s = s\<lparr>isRendering := False\<rparr>"

definition wmText :: "AppState \<Rightarrow> string" where
  "wmText s = (if wm_enabled (watermark s) then wm_text (watermark s) else [])"

definition renderPrompt :: string where
  "renderPrompt = ''A high quality studio rendering of this assembly.''"

text \<open>
  \<open>handleGenerateRender\<close> run from the click to its end. \<open>snapshot\<close> is what
  \<open>canvas.toDataURL\<close> ends with; \<open>generateRendering\<close> is the service function of
  \<open>services/geminiService\<close>, given as the outcome it has for each request.
\<close>

definition handleGenerateRender ::
  "string outcome \<Rightarrow> (string \<times> string \<times> string \<Rightarrow> string outcome) \<Rightarrow> AppState \<Rightarrow> AppState" where
  "handleGenerateRender snapshot generateRendering s =
     (if \<not> canvasRef s then s
      else
        finallyBlock
          (case snapshot of
             Rejected e \<Rightarrow> catchBlock e (s\<lparr>isRendering := True\<rparr>)
           | Fulfilled dataUrl \<Rightarrow>
               (case generateRendering (dataUrl, renderPrompt, wmText s) of
                  Fulfilled result \<Rightarrow> s\<lparr>isRendering := True, renderResult := Some result\<rparr>
                | Rejected e \<Rightarrow> catchBlock e (s\<lparr>isRendering := True\<rparr>))))"

text \<open>
  The same handler in its two halves, for runs in which other events arrive while the
  request is outstanding: up to the \<open>await\<close> (the request joins \<open>inFlight\<close>), and from
  the settling of the \<open>k\<close>-th outstanding request on.
\<close>

definition renderStart :: "string outcome \<Rightarrow> AppState \<Rightarrow> AppState" where
  "renderStart snapshot s =
     (if \<not> canvasRef s then s
      else
        (case snapshot of
           Rejected e \<Rightarrow> finallyBlock (catchBlock e (s\<lparr>isRendering := True\<rparr>))
         | Fulfilled dataUrl \<Rightarrow>
             s\<lparr>isRendering := True,
               inFlight := inFlight s @ [(dataUrl, renderPrompt, wmText s)]\<rparr>))"

definition renderSettle :: "nat \<Rightarrow> string outcome \<Rightarrow> AppState \<Rightarrow> AppState" where
  "renderSettle k response s =
     (if length (inFlight s) \<le> k then s
      else
        finallyBlock
          (case response of
             Fulfilled result \<Rightarrow>
               s\<lparr>renderResult := Some result,
                 inFlight := take k (inFlight s) @ drop (Suc k) (inFlight s)\<rparr>
           | Rejected e \<Rightarrow>
               catchBlock e (s\<lparr>inFlight := take k (inFlight s) @ drop (Suc k) (inFlight s)\<rparr>)))"

text \<open>
  The buttons of \<open>Toolbar\<close>. None of them has a \<open>disabled\<close> attribute, and
  \<open>Toolbar\<close> is not given \<open>isRendering\<close>.
\<close>

datatype ToolbarButton =
  SelectButton | MoveButton | RotateButton | ScaleButton | MeasureButton | GenerateRenderButton

definition buttonDisabled :: "AppState \<Rightarrow> ToolbarButton \<Rightarrow> bool" where
  "buttonDisabled s b = False"

fun buttonOnClick :: "string outcome \<Rightarrow> ToolbarButton \<Rightarrow> AppState \<Rightarrow> AppState" where
  "buttonOnClick snapshot SelectButton s = s\<lparr>mode := SELECT\<rparr>"
| "buttonOnClick snapshot MoveButton s = s\<lparr>mode := MOVE\<rparr>"
| "buttonOnClick snapshot RotateButton s = s\<lparr>mode := ROTATE\<rparr>"
| "buttonOnClick snapshot ScaleButton s = s\<lparr>mode := SCALE\<rparr>"
| "buttonOnClick snapshot MeasureButton s = s\<lparr>mode := MEASURE\<rparr>"
| "buttonOnClick snapshot GenerateRenderButton s = renderStart snapshot s"

text \<open>A click on a button: a disabled button does not fire.\<close>

definition toolbarClick :: "string outcome \<Rightarrow> ToolbarButton \<Rightarrow> AppState \<Rightarrow> AppState" where
  "toolbarClick snapshot b s = (if buttonDisabled s b then s else buttonOnClick snapshot b s)"

text \<open>
  The rendering modal of \<open>App\<close>: \<open>(isRendering || renderResult) && ...\<close>. A result
  is truthy when it is set and not the empty string.
\<close>

definition renderModalShown :: "AppState \<Rightarrow> bool" where
  "renderModalShown s =
     (isRendering s \<or> (case renderResult s of None \<Rightarrow> False | Some r \<Rightarrow> r \<noteq> []))"

section \<open>Notions of the specification\<close>

text \<open>
  The Euclidean norm of a vector and the difference of two points, as the specification
  names them.
\<close>

fun vecSub :: "vec3 \<Rightarrow> vec3 \<Rightarrow> vec3" where
  "vecSub (x, y, z) (vx, vy, vz) = (x - vx, y - vy, z - vz)"

fun euclideanNorm :: "vec3 \<Rightarrow> real" where
  "euclideanNorm (x, y, z) = sqrt (x\<^sup>2 + y\<^sup>2 + z\<^sup>2)"

section \<open>Example sessions\<close>

text \<open>
  Two default objects added one after the other to the initial scene; the same scene
  with the Measure tool chosen; the initial scene with the canvas mounted.
\<close>

definition twoObjects :: AppState where
  "twoObjects = addObjects [(7, ''0.a'', emptyPartial), (8, ''0.b'', emptyPartial)] initialState"

definition measuringScene :: AppState where
  "measuringScene = twoObjects\<lparr>mode := MEASURE\<rparr>"

definition mountedState :: AppState where
  "mountedState = initialState\<lparr>canvasRef := True\<rparr>"

text \<open>
  Three \<open>addObject\<close> calls, two of them in the same millisecond, and two calls that
  draw the same clock reading and the same random text.
\<close>

definition threeCalls :: "(nat \<times> string \<times> PartialSceneObject) list" where
  "threeCalls =
     [(5, ''0.k3'', emptyPartial), (5, ''0.k4'', emptyPartial\<lparr>p_name := Some ''Leg''\<rparr>),
      (6, ''0.k3'', emptyPartial)]"

definition collidingCalls :: "(nat \<times> string \<times> PartialSceneObject) list" where
  "collidingCalls = [(5, ''0.k3'', emptyPartial), (5, ''0.k3'', emptyPartial)]"

text \<open>
  Three clicks: one whose ray passes the invisible mesh and then the first object, one
  over the empty group only, one over the second object.
\<close>

definition threeClicks :: "(nat \<times> (SceneNode \<times> vec3) list) list" where
  "threeClicks =
     [(11, [(InvisibleMesh, (0, 0, 0)), (SceneItemMesh 0, (1, 0, 0))]),
      (12, [(EmptyGroup, (0, 0, 0))]),
      (13, [(SceneItemMesh 1, (0, 1, 0))])]"

text \<open>
  The \<open>onAddObject\<close> calls the loop of \<open>handleAssemble\<close> makes, in order, each with the
  clock reading and random text it draws.
\<close>

fun assembleCalls ::
  "(nat \<Rightarrow> nat \<times> string) \<Rightarrow> string list \<Rightarrow> nat \<Rightarrow> (nat \<times> string \<times> PartialSceneObject) list" where
  "assembleCalls env [] index = []"
| "assembleCalls env (i # ids) index =
     (case findPart i of
        None \<Rightarrow> assembleCalls env ids index
      | Some pt \<Rightarrow>
          (fst (env index), snd (env index), assembledPart pt index)
            # assembleCalls env ids (index + 1))"

text \<open>
  The caster and then the extrusion ticked in the component list; a clock that advances
  by one millisecond per call, with one random text.
\<close>

definition twoPartsSelected :: AppState where
  "twoPartsSelected = togglePart ''p1'' (togglePart ''p3'' initialState)"

definition sampleEnv :: "nat \<Rightarrow> nat \<times> string" where
  "sampleEnv k = (100 + k, ''0.x7'')"

text \<open>
  The two objects dragged with the gizmo so that the points \<open>(0,0,0)\<close> and \<open>(3,4,0)\<close>
  lie on their top faces, then the Measure tool chosen in the toolbar; and one click on
  each of the two points.
\<close>

definition gizmoMove :: "vec3 \<Rightarrow> PartialSceneObject" where
  "gizmoMove pos =
     emptyPartial\<lparr>p_position := Some pos, p_rotation := Some (0, 0, 0), p_scale := Some (1, 1, 1)\<rparr>"

definition surveyScene :: AppState where
  "surveyScene =
     toolbarClick (Fulfilled []) MeasureButton
       (handleUpdateObject ''8-b'' (gizmoMove (3, 4, - (1 / 2)))
          (handleUpdateObject ''7-a'' (gizmoMove (0, 0, - (1 / 2))) twoObjects))"

definition twoMeasureClicks :: "(nat \<times> (SceneNode \<times> vec3) list) list" where
  "twoMeasureClicks =
     [(21, [(SceneItemMesh 0, (0, 0, 0))]), (22, [(SceneItemMesh 1, (3, 4, 0))])]"

text \<open>Generate Render clicked twice before any answer has come.\<close>

definition twoRequests :: AppState where
  "twoRequests =
     toolbarClick (Fulfilled ''data:image/png'') GenerateRenderButton
       (toolbarClick (Fulfilled ''data:image/png'') GenerateRenderButton mountedState)"

section \<open>Basic facts\<close>

declare toString.simps [simp del]

lemma overwrite_simps [simp]:
  "overwrite None v = v"
  "overwrite (Some w) v = w"
  by (simp_all add: overwrite_def)

lemma orValue_simps [simp]:
  "orValue None b = b"
  "orValue (Some v) b = v"
  by (simp_all add: orValue_def)

lemma orString_simps [simp]:
  "orString None b = b"
  "orString (Some []) b = b"
  "s \<noteq> [] \<Longrightarrow> orString (Some s) b = s"
  by (simp_all add: orString_def)

lemma newObj_id: "obj_id (newObj now rnd objData) = uniqueId now rnd"
  by (simp add: newObj_def)

lemma spread_emptyPartial: "spread ob emptyPartial = ob"
  by (simp add: spread_def emptyPartial_def)

lemma spread_singleField: "spread ob (singleField f) = changeOnly f ob"
  by (cases f) (simp_all add: spread_def emptyPartial_def)

lemma map_unmatched_id:
  "i \<notin> obj_id ` set obs \<Longrightarrow> map (\<lambda>ob. if obj_id ob = i then g ob else ob) obs = obs"
  by (induction obs) auto

lemma digitChar_numerals [simp]:
  "digitChar 0 = CHR ''0''" "digitChar 1 = CHR ''1''" "digitChar 2 = CHR ''2''"
  "digitChar 3 = CHR ''3''" "digitChar 4 = CHR ''4''" "digitChar 5 = CHR ''5''"
  "digitChar 6 = CHR ''6''" "digitChar 7 = CHR ''7''" "digitChar 8 = CHR ''8''"
  "digitChar 9 = CHR ''9''" "digitChar (Suc 0) = CHR ''1''"
  by code_simp+

lemma digitChar_inj: "a < 10 \<Longrightarrow> b < 10 \<Longrightarrow> digitChar a = digitChar b \<Longrightarrow> a = b"
proof -
  assume a: "a < 10" and b: "b < 10" and e: "digitChar a = digitChar b"
  from e have "of_char (char_of (48 + a)) = (of_char (char_of (48 + b)) :: nat)"
    by (simp add: digitChar_def)
  with a b show "a = b" by simp
qed

lemma digitChar_not_dash: "d < 10 \<Longrightarrow> digitChar d \<noteq> CHR ''-''"
proof
  assume d: "d < 10" and e: "digitChar d = CHR ''-''"
  from e have "of_char (char_of (48 + d)) = (of_char (CHR ''-'') :: nat)"
    by (simp add: digitChar_def)
  with d show False by simp
qed

lemma toString_not_Nil: "toString n \<noteq> []"
  by (subst toString.simps) simp

text \<open>A decimal numeral has no minus sign in it.\<close>

lemma toString_no_dash: "CHR ''-'' \<notin> set (toString n)"
proof (induction n rule: toString.induct)
  case (1 n)
  show ?case
  proof (cases "n < 10")
    case True
    then show ?thesis using digitChar_not_dash [of n] by (subst toString.simps) auto
  next
    case False
    then show ?thesis using 1 digitChar_not_dash [of "n mod 10"]
      by (subst toString.simps) auto
  qed
qed

text \<open>Different numbers have different numerals.\<close>

lemma toString_inj: "toString n = toString m \<Longrightarrow> n = m"
proof (induction n arbitrary: m rule: toString.induct)
  case (1 n)
  show ?case
  proof (cases "n < 10")
    case n: True
    show ?thesis
    proof (cases "m < 10")
      case True
      with n 1(2) show ?thesis
        by (simp add: toString.simps [of n] toString.simps [of m] digitChar_inj)
    next
      case False
      with n 1(2) toString_not_Nil [of "m div 10"] show ?thesis
        by (simp add: toString.simps [of n] toString.simps [of m])
    qed
  next
    case n: False
    show ?thesis
    proof (cases "m < 10")
      case True
      with n 1(2) toString_not_Nil [of "n div 10"] show ?thesis
        by (simp add: toString.simps [of n] toString.simps [of m])
    next
      case False
      with n 1(2) have e: "toString (n div 10) = toString (m div 10)"
        and d: "digitChar (n mod 10) = digitChar (m mod 10)"
        by (simp_all add: toString.simps [of n] toString.simps [of m])
      from 1(1) [OF n e] have "n div 10 = m div 10" .
      moreover from d have "n mod 10 = m mod 10" by (simp add: digitChar_inj)
      ultimately show ?thesis by (metis div_mult_mod_eq)
    qed
  qed
qed

text \<open>Two texts cut at the first occurrence of a separator agree piece by piece.\<close>

lemma split_at_first:
  "x \<notin> set xs \<Longrightarrow> x \<notin> set xs' \<Longrightarrow> xs @ x # ys = xs' @ x # ys' \<Longrightarrow> xs = xs' \<and> ys = ys'"
proof (induction xs arbitrary: xs')
  case Nil
  then show ?case by (cases xs') auto
next
  case (Cons a xs)
  then show ?case by (cases xs') auto
qed

text \<open>
  The id is the numeral, a minus sign and the suffix, so it determines the clock reading
  and the suffix it was built from.
\<close>

lemma uniqueId_inj:
  "uniqueId now rnd = uniqueId now' rnd' \<longleftrightarrow> now = now' \<and> substr rnd 2 9 = substr rnd' 2 9"
proof
  assume "uniqueId now rnd = uniqueId now' rnd'"
  then have "toString now @ CHR ''-'' # substr rnd 2 9 = toString now' @ CHR ''-'' # substr rnd' 2 9"
    by (simp add: uniqueId_def)
  then have "toString now = toString now' \<and> substr rnd 2 9 = substr rnd' 2 9"
    by (rule split_at_first [OF toString_no_dash toString_no_dash])
  then show "now = now' \<and> substr rnd 2 9 = substr rnd' 2 9"
    by (simp add: toString_inj)
next
  assume "now = now' \<and> substr rnd 2 9 = substr rnd' 2 9"
  then show "uniqueId now rnd = uniqueId now' rnd'"
    by (simp add: uniqueId_def)
qed

text \<open>The example scene.\<close>

lemma twoObjects_objects:
  "objects twoObjects = [newObj 7 ''0.a'' emptyPartial, newObj 8 ''0.b'' emptyPartial]"
  by (simp add: twoObjects_def handleAddObject_def initialState_def)

lemma twoObjects_fields:
  "obj_id (newObj 7 ''0.a'' emptyPartial) = ''7-a''"
  "obj_id (newObj 8 ''0.b'' emptyPartial) = ''8-b''"
  "obj_name (newObj 7 ''0.a'' emptyPartial) = ''New Object''"
  "obj_name (newObj 8 ''0.b'' emptyPartial) = ''New Object''"
  by (simp_all add: newObj_def uniqueId_def substr_def toString.simps emptyPartial_def)

lemma twoObjects_state:
  "mode twoObjects = MOVE" "selectedId twoObjects = Some ''8-b''"
  "measurements twoObjects = []" "measuringStart twoObjects = None"
  using twoObjects_fields
  by (simp_all add: twoObjects_def handleAddObject_def initialState_def)

section \<open>Upload without a file\<close>

text \<open>
  C10. When the change event of the upload input carries no file (the file list is null
  or empty), \<open>handleUpload\<close> returns the state it was given: no scene object is created,
  no object URL is allocated, and the stores, the selection and the mode are unchanged.
\<close>

theorem handleUpload_no_file:
  "handleUpload now rnd url None s = s \<and> handleUpload now rnd url (Some []) s = s"
  by (simp add: handleUpload_def)

section \<open>updateObject\<close>

text \<open>
  C4. \<open>updateObject(id, {field: v})\<close> with a single-field partial changes only that
  field, on the entries whose id matches; every other field of such an entry and every
  other entry stay as they were, in the same positions; nothing but the object store
  changes (so the selection and the tool mode are kept); and when no entry has the id,
  the call returns the state unchanged, whatever the partial is.
\<close>

theorem handleUpdateObject_single_field:
  "handleUpdateObject i (singleField f) s =
     s\<lparr>objects := map (\<lambda>ob. if obj_id ob = i then changeOnly f ob else ob) (objects s)\<rparr>
   \<and> selectedId (handleUpdateObject i (singleField f) s) = selectedId s
   \<and> mode (handleUpdateObject i (singleField f) s) = mode s
   \<and> (i \<notin> obj_id ` set (objects s) \<longrightarrow> handleUpdateObject i updates s = s)"
  by (simp add: handleUpdateObject_def spread_singleField map_unmatched_id)

theorem handleUpdateObject_single_field_witness:
  "''9-z'' \<notin> obj_id ` set (objects twoObjects)
   \<and> handleUpdateObject ''9-z'' (singleField (SetName ''Leg'')) twoObjects = twoObjects
   \<and> map obj_name (objects (handleUpdateObject ''7-a'' (singleField (SetName ''Leg'')) twoObjects))
       = [''Leg'', ''New Object'']
   \<and> map obj_id (objects (handleUpdateObject ''7-a'' (singleField (SetName ''Leg'')) twoObjects))
       = [''7-a'', ''8-b'']"
proof -
  have absent: "''9-z'' \<notin> obj_id ` set (objects twoObjects)"
    by (simp add: twoObjects_objects twoObjects_fields)
  have a: "handleUpdateObject ''9-z'' (singleField (SetName ''Leg'')) twoObjects = twoObjects"
    using handleUpdateObject_single_field
      [of "''9-z''" "SetName ''Leg''" twoObjects "singleField (SetName ''Leg'')"] absent
    by blast
  have b: "objects (handleUpdateObject ''7-a'' (singleField (SetName ''Leg'')) twoObjects)
      = map (\<lambda>ob. if obj_id ob = ''7-a'' then changeOnly (SetName ''Leg'') ob else ob) (objects twoObjects)"
    using handleUpdateObject_single_field
      [of "''7-a''" "SetName ''Leg''" twoObjects "singleField (SetName ''Leg'')"]
    by (simp del: singleField.simps)
  show ?thesis
    using absent a unfolding b by (simp add: twoObjects_objects twoObjects_fields del: singleField.simps)
qed

section \<open>addObject\<close>

text \<open>
  C3, as the code has it. For every partial input, \<open>addObject\<close> appends one object at
  the end of the store and changes nothing else but the selection, which becomes the id of
  the new object, and the tool mode, which becomes move. In the new object every unset
  field with a default takes it: name \<open>New Object\<close>, type primitive, position and
  rotation \<open>[0,0,0]\<close>, scale \<open>[1,1,1]\<close>, color white. Its id is the decimal clock
  reading, a minus sign and up to nine characters of the random text after its first two;
  it differs from every id built from another clock reading or another suffix. Adding one
  box primitive to the initial scene gives one object, selected, in mode move.
\<close>

theorem handleAddObject_effect:
  "handleAddObject now rnd objData s =
     s\<lparr>objects := objects s @ [newObj now rnd objData],
       selectedId := Some (obj_id (newObj now rnd objData)), mode := MOVE\<rparr>
   \<and> (p_name objData = None \<longrightarrow> obj_name (newObj now rnd objData) = ''New Object'')
   \<and> (p_type objData = None \<longrightarrow> obj_type (newObj now rnd objData) = Primitive)
   \<and> (p_position objData = None \<longrightarrow> obj_position (newObj now rnd objData) = (0, 0, 0))
   \<and> (p_rotation objData = None \<longrightarrow> obj_rotation (newObj now rnd objData) = (0, 0, 0))
   \<and> (p_scale objData = None \<longrightarrow> obj_scale (newObj now rnd objData) = (1, 1, 1))
   \<and> (p_color objData = None \<longrightarrow> obj_color (newObj now rnd objData) = ''#ffffff'')
   \<and> obj_id (newObj now rnd objData) = toString now @ ''-'' @ take 9 (drop 2 rnd)
   \<and> (\<forall>now' rnd'. (now', substr rnd' 2 9) \<noteq> (now, substr rnd 2 9) \<longrightarrow>
         uniqueId now' rnd' \<noteq> obj_id (newObj now rnd objData))
   \<and> length (objects (handleAddObject now rnd
         (emptyPartial\<lparr>p_type := Some Primitive, p_geometryType := Some (Some Box)\<rparr>)
         initialState)) = 1
   \<and> selectedId (handleAddObject now rnd
         (emptyPartial\<lparr>p_type := Some Primitive, p_geometryType := Some (Some Box)\<rparr>)
         initialState)
       = Some (obj_id (hd (objects (handleAddObject now rnd
           (emptyPartial\<lparr>p_type := Some Primitive, p_geometryType := Some (Some Box)\<rparr>)
           initialState))))
   \<and> mode (handleAddObject now rnd
         (emptyPartial\<lparr>p_type := Some Primitive, p_geometryType := Some (Some Box)\<rparr>)
         initialState) = MOVE"
proof -
  have defaults: "p_name objData = None \<longrightarrow> obj_name (newObj now rnd objData) = ''New Object''"
    "p_type objData = None \<longrightarrow> obj_type (newObj now rnd objData) = Primitive"
    "p_position objData = None \<longrightarrow> obj_position (newObj now rnd objData) = (0, 0, 0)"
    "p_rotation objData = None \<longrightarrow> obj_rotation (newObj now rnd objData) = (0, 0, 0)"
    "p_scale objData = None \<longrightarrow> obj_scale (newObj now rnd objData) = (1, 1, 1)"
    "p_color objData = None \<longrightarrow> obj_color (newObj now rnd objData) = ''#ffffff''"
    by (simp_all add: newObj_def)
  have ident: "obj_id (newObj now rnd objData) = toString now @ ''-'' @ take 9 (drop 2 rnd)"
    by (simp add: newObj_id uniqueId_def substr_def)
  have other: "\<forall>now' rnd'. (now', substr rnd' 2 9) \<noteq> (now, substr rnd 2 9) \<longrightarrow>
         uniqueId now' rnd' \<noteq> obj_id (newObj now rnd objData)"
    by (simp add: newObj_id uniqueId_inj)
  have scenario: "length (objects (handleAddObject now rnd
         (emptyPartial\<lparr>p_type := Some Primitive, p_geometryType := Some (Some Box)\<rparr>)
         initialState)) = 1"
    "selectedId (handleAddObject now rnd
         (emptyPartial\<lparr>p_type := Some Primitive, p_geometryType := Some (Some Box)\<rparr>)
         initialState)
       = Some (obj_id (hd (objects (handleAddObject now rnd
           (emptyPartial\<lparr>p_type := Some Primitive, p_geometryType := Some (Some Box)\<rparr>)
           initialState))))"
    "mode (handleAddObject now rnd
         (emptyPartial\<lparr>p_type := Some Primitive, p_geometryType := Some (Some Box)\<rparr>)
         initialState) = MOVE"
    by (simp_all add: handleAddObject_def initialState_def)
  have eff: "handleAddObject now rnd objData s =
     s\<lparr>objects := objects s @ [newObj now rnd objData],
       selectedId := Some (obj_id (newObj now rnd objData)), mode := MOVE\<rparr>"
    by (simp add: handleAddObject_def)
  from eff defaults ident other scenario show ?thesis by blast
qed

theorem handleAddObject_effect_witness:
  "p_name emptyPartial = None \<and> p_type emptyPartial = None \<and> p_position emptyPartial = None
   \<and> p_rotation emptyPartial = None \<and> p_scale emptyPartial = None \<and> p_color emptyPartial = None
   \<and> (8::nat, substr ''0.b'' 2 9) \<noteq> (7, substr ''0.a'' 2 9)
   \<and> newObj 7 ''0.a'' emptyPartial =
       \<lparr>obj_id = ''7-a'', obj_name = ''New Object'', obj_type = Primitive,
        obj_geometryType = None, obj_fileUrl = None, obj_position = (0, 0, 0),
        obj_rotation = (0, 0, 0), obj_scale = (1, 1, 1), obj_color = ''#ffffff''\<rparr>
   \<and> uniqueId 8 ''0.b'' \<noteq> obj_id (newObj 7 ''0.a'' emptyPartial)
   \<and> objects (handleAddObject 7 ''0.a'' emptyPartial initialState) = [newObj 7 ''0.a'' emptyPartial]"
proof -
  have hyps: "p_name emptyPartial = None" "p_type emptyPartial = None"
    "p_position emptyPartial = None" "p_rotation emptyPartial = None"
    "p_scale emptyPartial = None" "p_color emptyPartial = None"
    by (simp_all add: emptyPartial_def)
  have key: "(8::nat, substr ''0.b'' 2 9) \<noteq> (7, substr ''0.a'' 2 9)"
    by simp
  note t = handleAddObject_effect [of 7 "''0.a''" emptyPartial initialState]
  from t hyps have fields: "obj_name (newObj 7 ''0.a'' emptyPartial) = ''New Object''"
    "obj_type (newObj 7 ''0.a'' emptyPartial) = Primitive"
    "obj_position (newObj 7 ''0.a'' emptyPartial) = (0, 0, 0)"
    "obj_rotation (newObj 7 ''0.a'' emptyPartial) = (0, 0, 0)"
    "obj_scale (newObj 7 ''0.a'' emptyPartial) = (1, 1, 1)"
    "obj_color (newObj 7 ''0.a'' emptyPartial) = ''#ffffff''"
    by blast+
  from t have ident: "obj_id (newObj 7 ''0.a'' emptyPartial) = ''7-a''"
    by (simp add: toString.simps)
  from t key have other: "uniqueId 8 ''0.b'' \<noteq> obj_id (newObj 7 ''0.a'' emptyPartial)"
    by blast
  from t have store: "objects (handleAddObject 7 ''0.a'' emptyPartial initialState) = [newObj 7 ''0.a'' emptyPartial]"
    by (simp add: initialState_def)
  have opt: "obj_geometryType (newObj 7 ''0.a'' emptyPartial) = None"
    "obj_fileUrl (newObj 7 ''0.a'' emptyPartial) = None"
    by (simp_all add: newObj_def emptyPartial_def)
  have whole: "newObj 7 ''0.a'' emptyPartial =
       \<lparr>obj_id = ''7-a'', obj_name = ''New Object'', obj_type = Primitive,
        obj_geometryType = None, obj_fileUrl = None, obj_position = (0, 0, 0),
        obj_rotation = (0, 0, 0), obj_scale = (1, 1, 1), obj_color = ''#ffffff''\<rparr>"
    using fields ident opt by (cases "newObj 7 ''0.a'' emptyPartial") simp
  from hyps key whole other store show ?thesis by blast
qed

text \<open>
  C3 as stated fails in the word fresh: the store is not consulted when the id is built,
  so a call that draws the clock reading and random text of an earlier call gives its
  object the id of a stored one.
\<close>

theorem handleAddObject_id_not_fresh:
  "obj_id (last (objects (handleAddObject 5 ''0.k3'' emptyPartial
       (handleAddObject 5 ''0.k3'' emptyPartial initialState))))
   \<in> obj_id ` set (objects (handleAddObject 5 ''0.k3'' emptyPartial initialState))"
  by (simp add: handleAddObject_def initialState_def)

section \<open>Sequences of addObject calls\<close>

lemma addObjects_objects:
  "objects (addObjects calls s) = objects s @ map (\<lambda>(now, rnd, objData). newObj now rnd objData) calls"
  by (induction calls s rule: addObjects.induct) (simp_all add: handleAddObject_def)

lemma distinct_ids:
  "distinct (map (\<lambda>(now, rnd, objData). (now, substr rnd 2 9)) calls) \<Longrightarrow>
   distinct (map (\<lambda>(now, rnd, objData). uniqueId now rnd) calls)"
proof (induction calls)
  case Nil
  then show ?case by simp
next
  case (Cons c calls)
  obtain now rnd objData where c: "c = (now, rnd, objData)" by (cases c)
  from Cons.prems have fresh: "(now, substr rnd 2 9) \<notin> set (map (\<lambda>(now, rnd, objData). (now, substr rnd 2 9)) calls)"
    and rest: "distinct (map (\<lambda>(now, rnd, objData). (now, substr rnd 2 9)) calls)"
    by (simp_all add: c)
  have "uniqueId now rnd \<notin> set (map (\<lambda>(now, rnd, objData). uniqueId now rnd) calls)"
  proof
    assume "uniqueId now rnd \<in> set (map (\<lambda>(now, rnd, objData). uniqueId now rnd) calls)"
    then obtain now' rnd' objData' where m: "(now', rnd', objData') \<in> set calls"
      and e: "uniqueId now rnd = uniqueId now' rnd'"
      by auto
    from e have "(now, substr rnd 2 9) = (now', substr rnd' 2 9)"
      by (simp add: uniqueId_inj)
    with m have "(now, substr rnd 2 9) \<in> set (map (\<lambda>(now, rnd, objData). (now, substr rnd 2 9)) calls)"
      by force
    with fresh show False by contradiction
  qed
  with Cons.IH [OF rest] show ?case by (simp add: c)
qed

text \<open>
  C8, as the code has it. For every finite sequence of \<open>addObject\<close> calls starting from
  the empty store, the produced objects appear in the store in exactly the order the calls
  were made; and their ids are pairwise distinct whenever the calls draw pairwise distinct
  pairs of clock reading and random suffix (the nine characters after \<open>0.\<close>).
\<close>

theorem addObjects_call_order_distinct_ids:
  "objects (addObjects calls initialState) = map (\<lambda>(now, rnd, objData). newObj now rnd objData) calls
   \<and> (distinct (map (\<lambda>(now, rnd, objData). (now, substr rnd 2 9)) calls) \<longrightarrow>
        distinct (map obj_id (objects (addObjects calls initialState))))"
proof -
  have ids: "map obj_id (map (\<lambda>(now, rnd, objData). newObj now rnd objData) calls)
      = map (\<lambda>(now, rnd, objData). uniqueId now rnd) calls"
    by (induction calls) (auto simp add: newObj_id)
  show ?thesis
    by (simp add: addObjects_objects initialState_def ids distinct_ids del: map_map)
qed

theorem addObjects_call_order_distinct_ids_witness:
  "distinct (map (\<lambda>(now, rnd, objData). (now, substr rnd 2 9)) threeCalls)
   \<and> map obj_id (objects (addObjects threeCalls initialState)) = [''5-k3'', ''5-k4'', ''6-k3'']
   \<and> map obj_name (objects (addObjects threeCalls initialState))
       = [''New Object'', ''Leg'', ''New Object'']
   \<and> distinct (map obj_id (objects (addObjects threeCalls initialState)))"
proof -
  have d: "distinct (map (\<lambda>(now, rnd, objData). (now, substr rnd 2 9)) threeCalls)"
    by (simp add: threeCalls_def substr_def)
  note t = addObjects_call_order_distinct_ids [of threeCalls]
  from t have ob: "objects (addObjects threeCalls initialState)
      = map (\<lambda>(now, rnd, objData). newObj now rnd objData) threeCalls"
    by blast
  from t d have dist: "distinct (map obj_id (objects (addObjects threeCalls initialState)))"
    by blast
  have ids: "map obj_id (objects (addObjects threeCalls initialState)) = [''5-k3'', ''5-k4'', ''6-k3'']"
    unfolding ob by (simp add: threeCalls_def newObj_id uniqueId_def substr_def toString.simps)
  have names: "map obj_name (objects (addObjects threeCalls initialState))
      = [''New Object'', ''Leg'', ''New Object'']"
    unfolding ob by (simp add: threeCalls_def newObj_def emptyPartial_def)
  from d dist ids names show ?thesis by blast
qed

text \<open>
  C8 as stated fails: nothing in \<open>handleAddObject\<close> looks at the ids already in the
  store, so two calls that draw the same clock reading and the same random text produce
  two objects with one id.
\<close>

theorem addObjects_duplicate_id:
  "\<not> distinct (map obj_id (objects (addObjects collidingCalls initialState)))"
  by (simp add: collidingCalls_def handleAddObject_def initialState_def)

section \<open>Two-click measurement\<close>

text \<open>
  The distance three.js computes is the Euclidean norm of the difference of the two
  points, and it does not depend on their order.
\<close>

lemma distanceTo_norm: "distanceTo q p = euclideanNorm (vecSub p q)"
proof -
  obtain qx qy qz where q: "q = (qx, qy, qz)" by (cases q)
  obtain px py pz where p: "p = (px, py, pz)" by (cases p)
  have "(qx - px) * (qx - px) = (px - qx)\<^sup>2" "(qy - py) * (qy - py) = (py - qy)\<^sup>2"
    "(qz - pz) * (qz - pz) = (pz - qz)\<^sup>2"
    by (simp_all add: power2_eq_square algebra_simps)
  then show ?thesis by (simp add: distanceTo_def p q)
qed

lemma distanceTo_commute: "distanceTo q p = distanceTo p q"
proof -
  obtain qx qy qz where q: "q = (qx, qy, qz)" by (cases q)
  obtain px py pz where p: "p = (px, py, pz)" by (cases p)
  have "(qx - px) * (qx - px) = (px - qx) * (px - qx)" "(qy - py) * (qy - py) = (py - qy) * (py - qy)"
    "(qz - pz) * (qz - pz) = (pz - qz) * (pz - qz)"
    by (simp_all add: algebra_simps)
  then show ?thesis by (simp add: distanceTo_def p q)
qed

text \<open>
  The handler, when it is called. In measure mode, with the slot empty, the clicked point
  becomes the pending start point and nothing else changes. With a start point \<open>q\<close>
  pending, a click at \<open>p\<close> appends exactly one measurement to the measurement store,
  with start \<open>q\<close>, end \<open>p\<close> and distance the Euclidean norm of \<open>p - q\<close>, and
  empties the slot. The distance is the same when the two points are swapped, and the
  points \<open>(0,0,0)\<close> and \<open>(3,4,0)\<close> are 5 apart.
\<close>

lemma handleCanvasClick_when_called:
  "mode s = MEASURE \<Longrightarrow>
     (measuringStart s = None \<longrightarrow> handleCanvasClick now p s = s\<lparr>measuringStart := Some p\<rparr>)
   \<and> (measuringStart s = Some q \<longrightarrow>
        handleCanvasClick now p s =
          s\<lparr>measurements := measurements s @
               [\<lparr>m_id = toString now, startPoint = q, endPoint = p,
                 distance = euclideanNorm (vecSub p q)\<rparr>],
            measuringStart := None\<rparr>)
   \<and> euclideanNorm (vecSub p q) = euclideanNorm (vecSub q p)
   \<and> euclideanNorm (vecSub (3, 4, 0) (0, 0, 0)) = 5"
proof -
  assume m: "mode s = MEASURE"
  have first: "measuringStart s = None \<longrightarrow> handleCanvasClick now p s = s\<lparr>measuringStart := Some p\<rparr>"
    using m by (simp add: handleCanvasClick_def)
  have second: "measuringStart s = Some q \<longrightarrow>
        handleCanvasClick now p s =
          s\<lparr>measurements := measurements s @
               [\<lparr>m_id = toString now, startPoint = q, endPoint = p,
                 distance = euclideanNorm (vecSub p q)\<rparr>],
            measuringStart := None\<rparr>"
    using m by (simp add: handleCanvasClick_def onAddMeasurement_def distanceTo_norm)
  have swap: "euclideanNorm (vecSub p q) = euclideanNorm (vecSub q p)"
    using distanceTo_norm [of q p] distanceTo_norm [of p q] distanceTo_commute [of q p] by simp
  have "sqrt 25 = 5" by (simp add: real_sqrt_unique)
  then have five: "euclideanNorm (vecSub (3, 4, 0) (0, 0, 0)) = 5" by simp
  from first second swap five show ?thesis by blast
qed

lemma handleCanvasClick_when_called_example:
  "mode (initialState\<lparr>mode := MEASURE\<rparr>) = MEASURE
   \<and> measuringStart (initialState\<lparr>mode := MEASURE\<rparr>) = None
   \<and> measuringStart (handleCanvasClick 1 (0, 0, 0) (initialState\<lparr>mode := MEASURE\<rparr>)) = Some (0, 0, 0)
   \<and> measurements (handleCanvasClick 2 (3, 4, 0)
         (handleCanvasClick 1 (0, 0, 0) (initialState\<lparr>mode := MEASURE\<rparr>)))
       = [\<lparr>m_id = ''2'', startPoint = (0, 0, 0), endPoint = (3, 4, 0), distance = 5\<rparr>]
   \<and> measuringStart (handleCanvasClick 2 (3, 4, 0)
         (handleCanvasClick 1 (0, 0, 0) (initialState\<lparr>mode := MEASURE\<rparr>))) = None"
proof -
  let ?s0 = "initialState\<lparr>mode := MEASURE\<rparr>"
  let ?s1 = "?s0\<lparr>measuringStart := Some (0, 0, 0)\<rparr>"
  have m0: "mode ?s0 = MEASURE" and n0: "measuringStart ?s0 = None"
    by (simp_all add: initialState_def)
  have m1: "mode ?s1 = MEASURE" and n1: "measuringStart ?s1 = Some (0, 0, 0)"
    by simp_all
  from handleCanvasClick_when_called [OF m0, where now = 1 and p = "(0, 0, 0)"] n0
  have c1: "handleCanvasClick 1 (0, 0, 0) ?s0 = ?s1" by blast
  from handleCanvasClick_when_called [OF m1, where q = "(0, 0, 0)" and now = 2 and p = "(3, 4, 0)"] n1
  have c2: "handleCanvasClick 2 (3, 4, 0) ?s1 =
      ?s1\<lparr>measurements := measurements ?s1 @
               [\<lparr>m_id = toString 2, startPoint = (0, 0, 0), endPoint = (3, 4, 0),
                 distance = 5\<rparr>],
            measuringStart := None\<rparr>"
    by simp
  show ?thesis
    unfolding c1 c2 using m0 n0 by (simp add: initialState_def toString.simps)
qed

section \<open>Clicks in the viewport\<close>

lemma filter_Cons_head: "filter P xs = y # ys \<Longrightarrow> P y"
proof -
  assume "filter P xs = y # ys"
  then have "y \<in> set (filter P xs)" by simp
  then show "P y" by simp
qed

lemma intersectable_cases: "intersectable s n \<Longrightarrow> \<exists>i. n = SceneItemMesh i \<and> i < length (objects s)"
  by (cases n) simp_all

text \<open>The intersections of a ray are nothing, or start with the mesh of a stored object.\<close>

lemma intersections_cases:
  "filter (\<lambda>(n, p). intersectable s n) ray = []
   \<or> (\<exists>i p rest. filter (\<lambda>(n, p). intersectable s n) ray = (SceneItemMesh i, p) # rest
         \<and> i < length (objects s))"
proof (cases "filter (\<lambda>(n, p). intersectable s n) ray")
  case Nil
  then show ?thesis by simp
next
  case (Cons y ys)
  obtain n p where y: "y = (n, p)" by (cases y)
  from filter_Cons_head [OF Cons] have "intersectable s n" by (simp add: y)
  then obtain i where "n = SceneItemMesh i" "i < length (objects s)"
    using intersectable_cases by blast
  with Cons y show ?thesis by simp
qed

lemma viewerClick_miss:
  "filter (\<lambda>(n, p). intersectable s n) ray = [] \<Longrightarrow> viewerClick now ray s = canvasOnClick s"
  by (simp add: viewerClick_def)

lemma viewerClick_hit:
  "filter (\<lambda>(n, p). intersectable s n) ray = (SceneItemMesh i, p) # rest \<Longrightarrow>
   viewerClick now ray s = canvasOnClick (sceneItemOnSelect (objects s ! i) s)"
  by (simp add: viewerClick_def)




lemma viewerClick_measure: "mode s = MEASURE \<Longrightarrow> viewerClick now ray s = s"
proof -
  assume m: "mode s = MEASURE"
  from intersections_cases [of s ray] show ?thesis
  proof
    assume "filter (\<lambda>(n, p). intersectable s n) ray = []"
    then show ?thesis using m by (simp add: viewerClick_miss canvasOnClick_def)
  next
    assume "\<exists>i p rest. filter (\<lambda>(n, p). intersectable s n) ray = (SceneItemMesh i, p) # rest
         \<and> i < length (objects s)"
    then obtain i p rest where "filter (\<lambda>(n, p). intersectable s n) ray = (SceneItemMesh i, p) # rest"
      by blast
    then show ?thesis using m
      by (simp add: viewerClick_hit sceneItemOnSelect_def canvasOnClick_def)
  qed
qed

lemma viewerClicks_measure: "mode s = MEASURE \<Longrightarrow> viewerClicks clicks s = s"
proof (induction clicks)
  case Nil
  then show ?case by simp
next
  case (Cons c clicks)
  obtain now ray where c: "c = (now, ray)" by (cases c)
  from Cons show ?case by (simp add: c viewerClick_measure)
qed

text \<open>
  C9. Under the click wiring of the viewport, no sequence of clicks delivered in measure
  mode changes anything: the measurement store gets no new entry, no pending start point
  is recorded, and the selection stays. The two handlers that would call
  \<open>handleCanvasClick\<close> sit on the invisible mesh without geometry and on the group
  without children, which no ray intersects; the click handler of an object stops the
  propagation and, in measure mode, does nothing else; and the handler of the canvas acts
  in select mode only.
\<close>

theorem viewerClicks_measure_mode_inert:
  "mode s = MEASURE \<Longrightarrow>
     viewerClicks clicks s = s
   \<and> measurements (viewerClicks clicks s) = measurements s
   \<and> measuringStart (viewerClicks clicks s) = measuringStart s
   \<and> selectedId (viewerClicks clicks s) = selectedId s
   \<and> (\<forall>n p. (n, p) \<in> set (filter (\<lambda>(n, p). intersectable s n) ray) \<longrightarrow>
         n \<noteq> InvisibleMesh \<and> n \<noteq> EmptyGroup)
   \<and> nodeOnClick now p (SceneItemMesh i) s = (s, True)
   \<and> canvasOnClick s = s"
proof -
  assume m: "mode s = MEASURE"
  have same: "viewerClicks clicks s = s"
    using m by (rule viewerClicks_measure)
  have unreachable: "\<forall>n p. (n, p) \<in> set (filter (\<lambda>(n, p). intersectable s n) ray) \<longrightarrow>
         n \<noteq> InvisibleMesh \<and> n \<noteq> EmptyGroup"
    by auto
  have item: "nodeOnClick now p (SceneItemMesh i) s = (s, True)"
    using m by (simp add: sceneItemOnSelect_def)
  have canvas: "canvasOnClick s = s"
    using m by (simp add: canvasOnClick_def)
  from same unreachable item canvas show ?thesis by simp
qed

theorem viewerClicks_measure_mode_inert_witness:
  "mode measuringScene = MEASURE
   \<and> viewerClicks threeClicks measuringScene = measuringScene
   \<and> measurements (viewerClicks threeClicks measuringScene) = []
   \<and> measuringStart (viewerClicks threeClicks measuringScene) = None
   \<and> selectedId (viewerClicks threeClicks measuringScene) = Some ''8-b''"
proof -
  have m: "mode measuringScene = MEASURE"
    by (simp add: measuringScene_def)
  have st: "measurements measuringScene = []" "measuringStart measuringScene = None"
    "selectedId measuringScene = Some ''8-b''"
    by (simp_all add: measuringScene_def twoObjects_state)
  from viewerClicks_measure_mode_inert
    [OF m, where clicks = threeClicks and ray = "[]" and i = 0 and now = 0 and p = "(0, 0, 0)"]
  have same: "viewerClicks threeClicks measuringScene = measuringScene"
    by (rule conjunct1)
  from m st show ?thesis by (simp add: same)
qed

section \<open>The measurement scenario\<close>

lemma surveyScene_state:
  "mode surveyScene = MEASURE" "measuringStart surveyScene = None"
  "measurements surveyScene = []"
  by (simp_all add: surveyScene_def toolbarClick_def buttonDisabled_def handleUpdateObject_def
      twoObjects_state)

lemma spread_gizmoMove:
  "spread ob (gizmoMove pos)
     = ob\<lparr>obj_position := pos, obj_rotation := (0, 0, 0), obj_scale := (1, 1, 1)\<rparr>"
  by (simp add: spread_def gizmoMove_def emptyPartial_def)

lemma surveyScene_positions:
  "map obj_position (objects surveyScene) = [(0, 0, - (1 / 2)), (3, 4, - (1 / 2))]"
  by (simp add: surveyScene_def toolbarClick_def buttonDisabled_def handleUpdateObject_def
      twoObjects_objects twoObjects_fields spread_gizmoMove)

text \<open>
  C1. The specification asks that in measure mode a first click on the scene records the
  clicked point as the pending start point, and that a second click appends one
  measurement whose distance is the Euclidean norm of the difference, 5 for the points
  \<open>(0,0,0)\<close> and \<open>(3,4,0)\<close>. The program does not do that. In the scene with the
  Measure tool chosen and the two points on the faces of the two objects, the slot is
  still empty after the click on the first point, and after the click on the second
  point the measurement store is still empty: both clicks go to the \<open>onClick\<close> of a
  \<open>SceneItem\<close>, which does nothing in measure mode, and nothing a click can reach calls
  \<open>handleCanvasClick\<close>. Called with the same two points, \<open>handleCanvasClick\<close> itself
  would have stored the one measurement of distance 5.
\<close>

theorem measure_clicks_record_nothing:
  "mode surveyScene = MEASURE
   \<and> map obj_position (objects surveyScene) = [(0, 0, - (1 / 2)), (3, 4, - (1 / 2))]
   \<and> measuringStart surveyScene = None
   \<and> measurements surveyScene = []
   \<and> measuringStart (viewerClick 21 [(SceneItemMesh 0, (0, 0, 0))] surveyScene) = None
   \<and> measurements (viewerClicks twoMeasureClicks surveyScene) = []
   \<and> measuringStart (viewerClicks twoMeasureClicks surveyScene) = None
   \<and> measurements (handleCanvasClick 22 (3, 4, 0) (handleCanvasClick 21 (0, 0, 0) surveyScene))
       = [\<lparr>m_id = ''22'', startPoint = (0, 0, 0), endPoint = (3, 4, 0), distance = 5\<rparr>]"
proof -
  note st = surveyScene_state
  have one: "viewerClick 21 [(SceneItemMesh 0, (0, 0, 0))] surveyScene = surveyScene"
    using st(1) by (rule viewerClick_measure)
  have both: "viewerClicks twoMeasureClicks surveyScene = surveyScene"
    using st(1) by (rule viewerClicks_measure)
  have "sqrt 25 = 5" by (simp add: real_sqrt_unique)
  then have direct: "measurements (handleCanvasClick 22 (3, 4, 0) (handleCanvasClick 21 (0, 0, 0) surveyScene))
       = [\<lparr>m_id = ''22'', startPoint = (0, 0, 0), endPoint = (3, 4, 0), distance = 5\<rparr>]"
    using st by (simp add: handleCanvasClick_def onAddMeasurement_def distanceTo_def toString.simps)
  from st surveyScene_positions direct show ?thesis by (simp add: one both)
qed

section \<open>Assembling the selected parts\<close>

text \<open>
  The part selection is a set kept as the list of its members; ticking and unticking catalog
  parts keeps the list free of repetitions and inside the catalog.
\<close>

lemma togglePart_distinct:
  "distinct (selectedParts s) \<Longrightarrow> distinct (selectedParts (togglePart i s))"
  by (simp add: togglePart_def distinct_removeAll)

lemma togglePart_catalog:
  "i \<in> df_id ` set SYSTEM_PARTS \<Longrightarrow> set (selectedParts s) \<subseteq> df_id ` set SYSTEM_PARTS \<Longrightarrow>
   set (selectedParts (togglePart i s)) \<subseteq> df_id ` set SYSTEM_PARTS"
  by (auto simp add: togglePart_def)

lemma findPart_Some:
  "i \<in> df_id ` set SYSTEM_PARTS \<Longrightarrow> \<exists>pt. findPart i = Some pt"
proof (cases "findPart i")
  case None
  assume "i \<in> df_id ` set SYSTEM_PARTS"
  with None show ?thesis by (auto simp add: findPart_def find_None_iff)
next
  case (Some pt)
  then show ?thesis by simp
qed

lemma findPart_sound: "findPart i = Some pt \<Longrightarrow> pt \<in> set SYSTEM_PARTS \<and> df_id pt = i"
  by (auto simp add: findPart_def find_Some_iff)

lemma part_name_nonempty: "pt \<in> set SYSTEM_PARTS \<Longrightarrow> df_name pt \<noteq> []"
  by (auto simp add: SYSTEM_PARTS_def part_def)

text \<open>The loop is a run of \<open>addObject\<close> calls.\<close>

lemma assembleLoop_addObjects:
  "assembleLoop env ids index s = addObjects (assembleCalls env ids index) s"
  by (induction ids arbitrary: index s) (simp_all split: option.splits)

lemma assembleCalls_length:
  "set ids \<subseteq> df_id ` set SYSTEM_PARTS \<Longrightarrow> length (assembleCalls env ids index) = length ids"
proof (induction ids arbitrary: index)
  case Nil
  then show ?case by simp
next
  case (Cons i ids)
  from Cons.prems obtain pt where pt: "findPart i = Some pt"
    using findPart_Some [of i] by auto
  from Cons.prems have "set ids \<subseteq> df_id ` set SYSTEM_PARTS" by simp
  from Cons.IH [OF this] show ?case by (simp add: pt)
qed

lemma assembleCalls_nth:
  "set ids \<subseteq> df_id ` set SYSTEM_PARTS \<Longrightarrow> k < length ids \<Longrightarrow>
   \<exists>pt. findPart (ids ! k) = Some pt
     \<and> assembleCalls env ids index ! k =
         (fst (env (index + k)), snd (env (index + k)), assembledPart pt (index + k))"
proof (induction ids arbitrary: index k)
  case Nil
  then show ?case by simp
next
  case (Cons i ids)
  from Cons.prems obtain pt where pt: "findPart i = Some pt"
    using findPart_Some [of i] by auto
  from Cons.prems have sub: "set ids \<subseteq> df_id ` set SYSTEM_PARTS" by simp
  show ?case
  proof (cases k)
    case 0
    then show ?thesis by (simp add: pt)
  next
    case (Suc j)
    with Cons.prems have "j < length ids" by simp
    from Cons.IH [OF sub this, of "index + 1"] show ?thesis by (simp add: Suc pt)
  qed
qed

lemma newObj_assembledPart:
  "pt \<in> set SYSTEM_PARTS \<Longrightarrow>
   newObj now rnd (assembledPart pt k) =
     \<lparr>obj_id = uniqueId now rnd, obj_name = df_name pt, obj_type = Primitive,
      obj_geometryType = df_geometryType pt, obj_fileUrl = None,
      obj_position = (real k * (3 / 2), 0, 0), obj_rotation = (0, 0, 0),
      obj_scale = (1, 1, 1), obj_color = ''#e0e0e0''\<rparr>"
  using part_name_nonempty [of pt]
  by (simp add: newObj_def assembledPart_def emptyPartial_def)

lemma list_of_two: "length xs = 2 \<Longrightarrow> xs = [xs ! 0, xs ! Suc 0]"
proof -
  assume "length xs = 2"
  then obtain a b where "xs = [a, b]"
    by (metis (no_types) Suc_length_conv length_0_conv numeral_2_eq_2)
  then show ?thesis by simp
qed

text \<open>
  C5. For every selection of \<open>k\<close> ids of catalog parts, \<open>assemble\<close> appends exactly \<open>k\<close>
  new objects to the store, one per selected part in the order of the selection, each made
  by \<open>addObject\<close> from the part's name and geometry, the color \<open>#e0e0e0\<close> and the
  position \<open>[i * 1.5, 0, 0]\<close>, where \<open>i\<close> counts the objects of the batch from 0; so
  consecutive objects are 1.5 apart along the x axis. The objects already stored stay, and
  the part selection is empty afterwards.
\<close>

theorem handleAssemble_one_object_per_part:
  assumes sel: "set (selectedParts s) \<subseteq> df_id ` set SYSTEM_PARTS"
  shows "length (objects (handleAssemble env s)) = length (objects s) + length (selectedParts s)
   \<and> take (length (objects s)) (objects (handleAssemble env s)) = objects s
   \<and> (\<forall>k < length (selectedParts s).
        \<exists>pt. findPart (selectedParts s ! k) = Some pt \<and> pt \<in> set SYSTEM_PARTS
          \<and> df_id pt = selectedParts s ! k
          \<and> objects (handleAssemble env s) ! (length (objects s) + k) =
               \<lparr>obj_id = uniqueId (fst (env k)) (snd (env k)), obj_name = df_name pt,
                obj_type = Primitive, obj_geometryType = df_geometryType pt,
                obj_fileUrl = None, obj_position = (real k * (3 / 2), 0, 0),
                obj_rotation = (0, 0, 0), obj_scale = (1, 1, 1), obj_color = ''#e0e0e0''\<rparr>)
   \<and> selectedParts (handleAssemble env s) = []
   \<and> handleAssemble env s =
       (addObjects (assembleCalls env (selectedParts s) 0) s)\<lparr>selectedParts := []\<rparr>"
proof -
  let ?calls = "assembleCalls env (selectedParts s) 0"
  have run: "handleAssemble env s = (addObjects ?calls s)\<lparr>selectedParts := []\<rparr>"
    by (simp add: handleAssemble_def assembleLoop_addObjects)
  have obs: "objects (handleAssemble env s)
      = objects s @ map (\<lambda>(now, rnd, objData). newObj now rnd objData) ?calls"
    by (simp add: run addObjects_objects)
  have len: "length (objects (handleAssemble env s)) = length (objects s) + length (selectedParts s)"
    by (simp add: obs assembleCalls_length [OF sel])
  have pre: "take (length (objects s)) (objects (handleAssemble env s)) = objects s"
    by (simp add: obs)
  have each: "\<forall>k < length (selectedParts s).
        \<exists>pt. findPart (selectedParts s ! k) = Some pt \<and> pt \<in> set SYSTEM_PARTS
          \<and> df_id pt = selectedParts s ! k
          \<and> objects (handleAssemble env s) ! (length (objects s) + k) =
               \<lparr>obj_id = uniqueId (fst (env k)) (snd (env k)), obj_name = df_name pt,
                obj_type = Primitive, obj_geometryType = df_geometryType pt,
                obj_fileUrl = None, obj_position = (real k * (3 / 2), 0, 0),
                obj_rotation = (0, 0, 0), obj_scale = (1, 1, 1), obj_color = ''#e0e0e0''\<rparr>"
  proof (intro allI impI)
    fix k
    assume k: "k < length (selectedParts s)"
    from assembleCalls_nth [OF sel k, of env 0]
    obtain pt where pt: "findPart (selectedParts s ! k) = Some pt"
      and call: "?calls ! k = (fst (env k), snd (env k), assembledPart pt k)"
      by auto
    from findPart_sound [OF pt] have mem: "pt \<in> set SYSTEM_PARTS" and ident: "df_id pt = selectedParts s ! k"
      by simp_all
    from k have kc: "k < length ?calls" by (simp add: assembleCalls_length [OF sel])
    have "objects (handleAssemble env s) ! (length (objects s) + k)
        = map (\<lambda>(now, rnd, objData). newObj now rnd objData) ?calls ! k"
      by (simp add: obs)
    also have "\<dots> = newObj (fst (env k)) (snd (env k)) (assembledPart pt k)"
      using kc by (simp add: call)
    finally have "objects (handleAssemble env s) ! (length (objects s) + k) =
               \<lparr>obj_id = uniqueId (fst (env k)) (snd (env k)), obj_name = df_name pt,
                obj_type = Primitive, obj_geometryType = df_geometryType pt,
                obj_fileUrl = None, obj_position = (real k * (3 / 2), 0, 0),
                obj_rotation = (0, 0, 0), obj_scale = (1, 1, 1), obj_color = ''#e0e0e0''\<rparr>"
      by (simp add: newObj_assembledPart [OF mem])
    with pt mem ident show "\<exists>pt. findPart (selectedParts s ! k) = Some pt \<and> pt \<in> set SYSTEM_PARTS
          \<and> df_id pt = selectedParts s ! k
          \<and> objects (handleAssemble env s) ! (length (objects s) + k) =
               \<lparr>obj_id = uniqueId (fst (env k)) (snd (env k)), obj_name = df_name pt,
                obj_type = Primitive, obj_geometryType = df_geometryType pt,
                obj_fileUrl = None, obj_position = (real k * (3 / 2), 0, 0),
                obj_rotation = (0, 0, 0), obj_scale = (1, 1, 1), obj_color = ''#e0e0e0''\<rparr>"
      by blast
  qed
  have cleared: "selectedParts (handleAssemble env s) = []"
    by (simp add: handleAssemble_def)
  from len pre each cleared run show ?thesis by blast
qed


theorem handleAssemble_one_object_per_part_witness:
  "set (selectedParts twoPartsSelected) \<subseteq> df_id ` set SYSTEM_PARTS
   \<and> selectedParts twoPartsSelected = [''p3'', ''p1'']
   \<and> length (objects (handleAssemble sampleEnv twoPartsSelected)) = 2
   \<and> map obj_name (objects (handleAssemble sampleEnv twoPartsSelected))
       = [''Heavy Duty Caster'', ''Aluminium Extrusion 40x40'']
   \<and> map obj_position (objects (handleAssemble sampleEnv twoPartsSelected))
       = [(0, 0, 0), (3 / 2, 0, 0)]
   \<and> selectedParts (handleAssemble sampleEnv twoPartsSelected) = []"
proof -
  let ?s = twoPartsSelected
  let ?obs = "objects (handleAssemble sampleEnv ?s)"
  have sp: "selectedParts ?s = [''p3'', ''p1'']"
    by (simp add: twoPartsSelected_def togglePart_def initialState_def)
  have empty: "objects ?s = []"
    by (simp add: twoPartsSelected_def togglePart_def initialState_def)
  have sub: "set (selectedParts ?s) \<subseteq> df_id ` set SYSTEM_PARTS"
    by (simp add: sp SYSTEM_PARTS_def part_def)
  have f0: "findPart ''p3'' = Some (part ''p3'' ''Heavy Duty Caster'' Sphere ''1.2MB'')"
    and f1: "findPart ''p1'' = Some (part ''p1'' ''Aluminium Extrusion 40x40'' Box ''2.1MB'')"
    by (simp_all add: findPart_def SYSTEM_PARTS_def part_def)
  note t = handleAssemble_one_object_per_part [OF sub, of sampleEnv]
  from t have "length ?obs = length (objects ?s) + length (selectedParts ?s)"
    by (rule conjunct1)
  then have len: "length ?obs = 2"
    by (simp add: sp empty)
  note t3 = t [THEN conjunct2, THEN conjunct2, THEN conjunct1]
  have each: "\<forall>k < length (selectedParts ?s).
        \<exists>pt. findPart (selectedParts ?s ! k) = Some pt
          \<and> obj_name (?obs ! (length (objects ?s) + k)) = df_name pt
          \<and> obj_position (?obs ! (length (objects ?s) + k)) = (real k * (3 / 2), 0, 0)"
  proof (intro allI impI)
    fix k
    assume "k < length (selectedParts ?s)"
    with t3 obtain pt where "findPart (selectedParts ?s ! k) = Some pt"
      and "?obs ! (length (objects ?s) + k) =
               \<lparr>obj_id = uniqueId (fst (sampleEnv k)) (snd (sampleEnv k)), obj_name = df_name pt,
                obj_type = Primitive, obj_geometryType = df_geometryType pt,
                obj_fileUrl = None, obj_position = (real k * (3 / 2), 0, 0),
                obj_rotation = (0, 0, 0), obj_scale = (1, 1, 1), obj_color = ''#e0e0e0''\<rparr>"
      by blast
    then show "\<exists>pt. findPart (selectedParts ?s ! k) = Some pt
          \<and> obj_name (?obs ! (length (objects ?s) + k)) = df_name pt
          \<and> obj_position (?obs ! (length (objects ?s) + k)) = (real k * (3 / 2), 0, 0)"
      by simp
  qed
  from each [rule_format, of 0] have o0: "obj_name (?obs ! 0) = ''Heavy Duty Caster''"
    "obj_position (?obs ! 0) = (0, 0, 0)"
    by (auto simp add: sp empty f0 part_def)
  from each [rule_format, of "Suc 0"] have o1: "obj_name (?obs ! Suc 0) = ''Aluminium Extrusion 40x40''"
    "obj_position (?obs ! Suc 0) = (3 / 2, 0, 0)"
    by (auto simp add: sp empty f1 part_def)
  from list_of_two [OF len] have two: "?obs = [?obs ! 0, ?obs ! Suc 0]" .
  have names: "map obj_name ?obs = [''Heavy Duty Caster'', ''Aluminium Extrusion 40x40'']"
    by (subst two) (simp add: o0 o1)
  have places: "map obj_position ?obs = [(0, 0, 0), (3 / 2, 0, 0)]"
    by (subst two) (simp add: o0 o1)
  from t have cleared: "selectedParts (handleAssemble sampleEnv ?s) = []"
    by (elim conjE)
  from sub sp len names places cleared show ?thesis by blast
qed

section \<open>Rendering\<close>

text \<open>
  When nothing happens in between, starting the handler and settling its request is the
  handler run from the click to its end.
\<close>

lemma renderStart_then_settle:
  "renderSettle (length (inFlight s)) (generateRendering (dataUrl, renderPrompt, wmText s))
     (renderStart (Fulfilled dataUrl) s)
   = handleGenerateRender (Fulfilled dataUrl) generateRendering s"
  by (cases "generateRendering (dataUrl, renderPrompt, wmText s)")
     (simp_all add: renderSettle_def renderStart_def handleGenerateRender_def finallyBlock_def
       catchBlock_def)

lemma renderStart_rejected:
  "renderStart (Rejected e) s = handleGenerateRender (Rejected e) generateRendering s"
  by (simp add: renderStart_def handleGenerateRender_def)

text \<open>
  C6. Whenever the canvas is mounted, so that the render call is made: the rendering flag
  is false after the handler, whatever the outcome. If the call fails (the service
  rejects, or taking the snapshot throws), the error is caught: exactly one alert with the
  text \<open>Rendering failed. Please try again.\<close> and exactly one log entry are added, and
  the render result is what it was before, so an unset result stays unset. If the call
  succeeds, the result is stored and nothing is alerted or logged.
\<close>

theorem handleGenerateRender_cleanup:
  "canvasRef s \<Longrightarrow>
     \<not> isRendering (handleGenerateRender snapshot generateRendering s)
   \<and> (snapshot = Rejected e
        \<or> (\<exists>dataUrl. snapshot = Fulfilled dataUrl
              \<and> generateRendering (dataUrl, renderPrompt, wmText s) = Rejected e) \<longrightarrow>
        alerts (handleGenerateRender snapshot generateRendering s)
          = alerts s @ [''Rendering failed. Please try again.'']
      \<and> errorLog (handleGenerateRender snapshot generateRendering s) = errorLog s @ [e]
      \<and> renderResult (handleGenerateRender snapshot generateRendering s) = renderResult s)
   \<and> (\<forall>dataUrl result. snapshot = Fulfilled dataUrl
          \<and> generateRendering (dataUrl, renderPrompt, wmText s) = Fulfilled result \<longrightarrow>
        renderResult (handleGenerateRender snapshot generateRendering s) = Some result
      \<and> alerts (handleGenerateRender snapshot generateRendering s) = alerts s
      \<and> errorLog (handleGenerateRender snapshot generateRendering s) = errorLog s)"
proof -
  assume c: "canvasRef s"
  have flag: "\<not> isRendering (handleGenerateRender snapshot generateRendering s)"
    using c by (simp add: handleGenerateRender_def finallyBlock_def)
  have failure: "snapshot = Rejected e
        \<or> (\<exists>dataUrl. snapshot = Fulfilled dataUrl
              \<and> generateRendering (dataUrl, renderPrompt, wmText s) = Rejected e) \<longrightarrow>
        alerts (handleGenerateRender snapshot generateRendering s)
          = alerts s @ [''Rendering failed. Please try again.'']
      \<and> errorLog (handleGenerateRender snapshot generateRendering s) = errorLog s @ [e]
      \<and> renderResult (handleGenerateRender snapshot generateRendering s) = renderResult s"
    using c by (auto simp add: handleGenerateRender_def finallyBlock_def catchBlock_def)
  have success: "\<forall>dataUrl result. snapshot = Fulfilled dataUrl
          \<and> generateRendering (dataUrl, renderPrompt, wmText s) = Fulfilled result \<longrightarrow>
        renderResult (handleGenerateRender snapshot generateRendering s) = Some result
      \<and> alerts (handleGenerateRender snapshot generateRendering s) = alerts s
      \<and> errorLog (handleGenerateRender snapshot generateRendering s) = errorLog s"
    using c by (auto simp add: handleGenerateRender_def finallyBlock_def)
  from flag failure success show ?thesis by blast
qed

theorem handleGenerateRender_cleanup_witness:
  "canvasRef mountedState
   \<and> \<not> isRendering (handleGenerateRender (Fulfilled ''data:image/png'')
         (\<lambda>request. Rejected ''network down'') mountedState)
   \<and> alerts (handleGenerateRender (Fulfilled ''data:image/png'')
         (\<lambda>request. Rejected ''network down'') mountedState)
       = [''Rendering failed. Please try again.'']
   \<and> errorLog (handleGenerateRender (Fulfilled ''data:image/png'')
         (\<lambda>request. Rejected ''network down'') mountedState) = [''network down'']
   \<and> renderResult (handleGenerateRender (Fulfilled ''data:image/png'')
         (\<lambda>request. Rejected ''network down'') mountedState) = None
   \<and> renderResult (handleGenerateRender (Fulfilled ''data:image/png'')
         (\<lambda>request. Fulfilled ''data:image/jpeg'') mountedState) = Some ''data:image/jpeg''
   \<and> \<not> isRendering (handleGenerateRender (Fulfilled ''data:image/png'')
         (\<lambda>request. Fulfilled ''data:image/jpeg'') mountedState)"
proof -
  have c: "canvasRef mountedState"
    by (simp add: mountedState_def)
  have st: "alerts mountedState = []" "errorLog mountedState = []" "renderResult mountedState = None"
    by (simp_all add: mountedState_def initialState_def)
  note bad = handleGenerateRender_cleanup [OF c, where snapshot = "Fulfilled ''data:image/png''"
      and generateRendering = "\<lambda>request. Rejected ''network down''" and e = "''network down''"]
  note good = handleGenerateRender_cleanup [OF c, where snapshot = "Fulfilled ''data:image/png''"
      and generateRendering = "\<lambda>request. Fulfilled ''data:image/jpeg''" and e = "''none''"]
  from bad st have b: "\<not> isRendering (handleGenerateRender (Fulfilled ''data:image/png'')
         (\<lambda>request. Rejected ''network down'') mountedState)"
    "alerts (handleGenerateRender (Fulfilled ''data:image/png'')
         (\<lambda>request. Rejected ''network down'') mountedState)
       = [''Rendering failed. Please try again.'']"
    "errorLog (handleGenerateRender (Fulfilled ''data:image/png'')
         (\<lambda>request. Rejected ''network down'') mountedState) = [''network down'']"
    "renderResult (handleGenerateRender (Fulfilled ''data:image/png'')
         (\<lambda>request. Rejected ''network down'') mountedState) = None"
    by simp_all
  from good have g: "renderResult (handleGenerateRender (Fulfilled ''data:image/png'')
         (\<lambda>request. Fulfilled ''data:image/jpeg'') mountedState) = Some ''data:image/jpeg''"
    "\<not> isRendering (handleGenerateRender (Fulfilled ''data:image/png'')
         (\<lambda>request. Fulfilled ''data:image/jpeg'') mountedState)"
    by simp_all
  from c b g show ?thesis by simp
qed

text \<open>
  C7, as the code has it. The Generate Render button is never disabled and its handler
  does not look at the rendering flag. With the canvas mounted, a click delivered to the
  button whose snapshot is taken sets the flag, so that the rendering modal is shown, and
  sends one more request, also while another one is outstanding; a click whose snapshot
  throws sends none, alerts and logs once and clears the flag. Without a canvas a click
  does nothing. When an outstanding request settles, the flag is cleared and that request
  alone leaves the requests in flight, whether or not others are still outstanding.
\<close>

theorem toolbarClick_generateRender_not_guarded:
  "\<not> buttonDisabled s GenerateRenderButton
   \<and> (canvasRef s \<longrightarrow>
        inFlight (toolbarClick (Fulfilled dataUrl) GenerateRenderButton s)
          = inFlight s @ [(dataUrl, renderPrompt, wmText s)]
      \<and> isRendering (toolbarClick (Fulfilled dataUrl) GenerateRenderButton s)
      \<and> renderModalShown (toolbarClick (Fulfilled dataUrl) GenerateRenderButton s))
   \<and> (canvasRef s \<longrightarrow>
        toolbarClick (Rejected e) GenerateRenderButton s
          = s\<lparr>alerts := alerts s @ [''Rendering failed. Please try again.''],
              errorLog := errorLog s @ [e], isRendering := False\<rparr>)
   \<and> (\<not> canvasRef s \<longrightarrow> toolbarClick snapshot GenerateRenderButton s = s)
   \<and> (k < length (inFlight s) \<longrightarrow>
        \<not> isRendering (renderSettle k response s)
      \<and> inFlight (renderSettle k response s) = take k (inFlight s) @ drop (Suc k) (inFlight s))"
proof -
  have enabled: "\<not> buttonDisabled s GenerateRenderButton"
    by (simp add: buttonDisabled_def)
  have sent: "canvasRef s \<longrightarrow>
        inFlight (toolbarClick (Fulfilled dataUrl) GenerateRenderButton s)
          = inFlight s @ [(dataUrl, renderPrompt, wmText s)]
      \<and> isRendering (toolbarClick (Fulfilled dataUrl) GenerateRenderButton s)
      \<and> renderModalShown (toolbarClick (Fulfilled dataUrl) GenerateRenderButton s)"
    by (simp add: toolbarClick_def buttonDisabled_def renderStart_def renderModalShown_def)
  have thrown: "canvasRef s \<longrightarrow>
        toolbarClick (Rejected e) GenerateRenderButton s
          = s\<lparr>alerts := alerts s @ [''Rendering failed. Please try again.''],
              errorLog := errorLog s @ [e], isRendering := False\<rparr>"
    by (simp add: toolbarClick_def buttonDisabled_def renderStart_def finallyBlock_def
        catchBlock_def)
  have unmounted: "\<not> canvasRef s \<longrightarrow> toolbarClick snapshot GenerateRenderButton s = s"
    by (simp add: toolbarClick_def buttonDisabled_def renderStart_def)
  have settled: "k < length (inFlight s) \<longrightarrow>
        \<not> isRendering (renderSettle k response s)
      \<and> inFlight (renderSettle k response s) = take k (inFlight s) @ drop (Suc k) (inFlight s)"
    by (cases response) (simp_all add: renderSettle_def finallyBlock_def catchBlock_def)
  from enabled sent thrown unmounted settled show ?thesis by blast
qed

lemma twoRequests_state:
  "canvasRef twoRequests" "isRendering twoRequests"
  "inFlight twoRequests =
     [(''data:image/png'', renderPrompt, ''DRAFT''), (''data:image/png'', renderPrompt, ''DRAFT'')]"
  by (simp_all add: twoRequests_def toolbarClick_def buttonDisabled_def renderStart_def
      mountedState_def initialState_def wmText_def)

theorem toolbarClick_generateRender_not_guarded_witness:
  "canvasRef mountedState
   \<and> inFlight (toolbarClick (Fulfilled ''data:image/png'') GenerateRenderButton mountedState)
       = [(''data:image/png'', renderPrompt, ''DRAFT'')]
   \<and> isRendering (toolbarClick (Fulfilled ''data:image/png'') GenerateRenderButton mountedState)
   \<and> renderModalShown (toolbarClick (Fulfilled ''data:image/png'') GenerateRenderButton mountedState)
   \<and> inFlight (toolbarClick (Rejected ''tainted canvas'') GenerateRenderButton mountedState) = []
   \<and> alerts (toolbarClick (Rejected ''tainted canvas'') GenerateRenderButton mountedState)
       = [''Rendering failed. Please try again.'']
   \<and> \<not> canvasRef initialState
   \<and> toolbarClick (Fulfilled ''data:image/png'') GenerateRenderButton initialState = initialState
   \<and> 0 < length (inFlight twoRequests)
   \<and> \<not> isRendering (renderSettle 0 (Fulfilled ''data:image/jpeg'') twoRequests)
   \<and> inFlight (renderSettle 0 (Fulfilled ''data:image/jpeg'') twoRequests)
       = [(''data:image/png'', renderPrompt, ''DRAFT'')]"
proof -
  have c: "canvasRef mountedState"
    by (simp add: mountedState_def)
  have st: "inFlight mountedState = []" "wmText mountedState = ''DRAFT''" "alerts mountedState = []"
    by (simp_all add: mountedState_def initialState_def wmText_def)
  have n: "\<not> canvasRef initialState"
    by (simp add: initialState_def)
  have k: "0 < length (inFlight twoRequests)"
    by (simp add: twoRequests_state)
  note a = toolbarClick_generateRender_not_guarded
    [where s = mountedState and dataUrl = "''data:image/png''" and e = "''tainted canvas''"
      and snapshot = "Fulfilled ''data:image/png''" and k = 0 and response = "Fulfilled ''data:image/jpeg''"]
  note b = toolbarClick_generateRender_not_guarded
    [where s = initialState and dataUrl = "''data:image/png''" and e = "''tainted canvas''"
      and snapshot = "Fulfilled ''data:image/png''" and k = 0 and response = "Fulfilled ''data:image/jpeg''"]
  note d = toolbarClick_generateRender_not_guarded
    [where s = twoRequests and dataUrl = "''data:image/png''" and e = "''tainted canvas''"
      and snapshot = "Fulfilled ''data:image/png''" and k = 0 and response = "Fulfilled ''data:image/jpeg''"]
  from a c st have sent: "inFlight (toolbarClick (Fulfilled ''data:image/png'') GenerateRenderButton mountedState)
       = [(''data:image/png'', renderPrompt, ''DRAFT'')]"
    "isRendering (toolbarClick (Fulfilled ''data:image/png'') GenerateRenderButton mountedState)"
    "renderModalShown (toolbarClick (Fulfilled ''data:image/png'') GenerateRenderButton mountedState)"
    by simp_all
  from a c have "toolbarClick (Rejected ''tainted canvas'') GenerateRenderButton mountedState
          = mountedState\<lparr>alerts := alerts mountedState @ [''Rendering failed. Please try again.''],
              errorLog := errorLog mountedState @ [''tainted canvas''], isRendering := False\<rparr>"
    by blast
  then have thrown: "inFlight (toolbarClick (Rejected ''tainted canvas'') GenerateRenderButton mountedState) = []"
    "alerts (toolbarClick (Rejected ''tainted canvas'') GenerateRenderButton mountedState)
       = [''Rendering failed. Please try again.'']"
    by (simp_all add: st)
  from b n have unmounted: "toolbarClick (Fulfilled ''data:image/png'') GenerateRenderButton initialState = initialState"
    by blast
  from d k have settled: "\<not> isRendering (renderSettle 0 (Fulfilled ''data:image/jpeg'') twoRequests)"
    "inFlight (renderSettle 0 (Fulfilled ''data:image/jpeg'') twoRequests)
       = take 0 (inFlight twoRequests) @ drop (Suc 0) (inFlight twoRequests)"
    by blast+
  from settled(2) have left: "inFlight (renderSettle 0 (Fulfilled ''data:image/jpeg'') twoRequests)
       = [(''data:image/png'', renderPrompt, ''DRAFT'')]"
    by (simp add: twoRequests_state)
  from c sent thrown n unmounted k settled(1) left show ?thesis by blast
qed

text \<open>
  C7 as stated fails: after one click on Generate Render the flag is true and the button
  is not disabled, and a second click puts a second request in flight.
\<close>

theorem toolbarClick_second_request_in_flight:
  "isRendering (toolbarClick (Fulfilled ''data:image/png'') GenerateRenderButton mountedState)
   \<and> \<not> buttonDisabled (toolbarClick (Fulfilled ''data:image/png'') GenerateRenderButton mountedState)
         GenerateRenderButton
   \<and> length (inFlight (toolbarClick (Fulfilled ''data:image/png'') GenerateRenderButton mountedState)) = 1
   \<and> length (inFlight (toolbarClick (Fulfilled ''data:image/png'') GenerateRenderButton
        (toolbarClick (Fulfilled ''data:image/png'') GenerateRenderButton mountedState))) = 2"
  by (simp add: toolbarClick_def buttonDisabled_def renderStart_def mountedState_def
      initialState_def)

end
